theory Spec2Isabelle
  imports Main "HOL-Library.Word"
begin

section \<open>JavaScript strings\<close>

text \<open>
  A JavaScript string is a sequence of 16-bit code units. String literals of the source
  are ASCII and are written \<open>lit ''...''\<close>.
\<close>

type_synonym code_unit = "16 word"
type_synonym jsstring = "code_unit list"

definition lit :: "string \<Rightarrow> jsstring" where
  "lit s = map (\<lambda>c. of_nat (of_char c)) s"

datatype js_exn = URIError | HostError jsstring

definition bind_exn :: "js_exn + 'a \<Rightarrow> ('a \<Rightarrow> js_exn + 'b) \<Rightarrow> js_exn + 'b" where
  "bind_exn r f = (case r of Inl e \<Rightarrow> Inl e | Inr x \<Rightarrow> f x)"

subsection \<open>The built-in \<open>encodeURIComponent\<close>\<close>

text \<open>
  ECMAScript's \<open>Encode(string, extraUnescaped)\<close> with \<open>extraUnescaped\<close> empty: the
  ASCII letters, the digits and \<open>_ - . ! ~ * ' ( )\<close> are copied; every other code point
  is written as \<open>%XX\<close> for each octet of its UTF-8 encoding, upper-case hexadecimal; an
  unpaired surrogate throws \<open>URIError\<close>.
\<close>

definition uriUnescaped :: "code_unit \<Rightarrow> bool" where
  "uriUnescaped c \<longleftrightarrow>
     (0x41 \<le> c \<and> c \<le> 0x5A) \<or> (0x61 \<le> c \<and> c \<le> 0x7A) \<or> (0x30 \<le> c \<and> c \<le> 0x39) \<or>
     c \<in> {0x5F, 0x2D, 0x2E, 0x21, 0x7E, 0x2A, 0x27, 0x28, 0x29}"

definition is_lead :: "code_unit \<Rightarrow> bool" where
  "is_lead c \<longleftrightarrow> 0xD800 \<le> c \<and> c \<le> 0xDBFF"

definition is_trail :: "code_unit \<Rightarrow> bool" where
  "is_trail c \<longleftrightarrow> 0xDC00 \<le> c \<and> c \<le> 0xDFFF"

definition UTF16SurrogatePairToCodePoint :: "code_unit \<Rightarrow> code_unit \<Rightarrow> nat" where
  "UTF16SurrogatePairToCodePoint lead trail =
     (unat lead - 0xD800) * 0x400 + (unat trail - 0xDC00) + 0x10000"

definition utf8 :: "nat \<Rightarrow> nat list" where
  "utf8 cp =
     (if cp < 0x80 then [cp]
      else if cp < 0x800 then [0xC0 + cp div 0x40, 0x80 + cp mod 0x40]
      else if cp < 0x10000 then
        [0xE0 + cp div 0x1000, 0x80 + (cp div 0x40) mod 0x40, 0x80 + cp mod 0x40]
      else
        [0xF0 + cp div 0x40000, 0x80 + (cp div 0x1000) mod 0x40,
         0x80 + (cp div 0x40) mod 0x40, 0x80 + cp mod 0x40])"

definition hex_digit :: "nat \<Rightarrow> code_unit" where
  "hex_digit n = (if n < 10 then of_nat (0x30 + n) else of_nat (0x41 + (n - 10)))"

definition percent_octet :: "nat \<Rightarrow> jsstring" where
  "percent_octet b = [0x25, hex_digit (b div 16), hex_digit (b mod 16)]"

definition escape_cp :: "nat \<Rightarrow> jsstring" where
  "escape_cp cp = concat (map percent_octet (utf8 cp))"

fun encodeURIComponent :: "jsstring \<Rightarrow> js_exn + jsstring" where
  "encodeURIComponent [] = Inr []"
| "encodeURIComponent (c # cs) =
     (if uriUnescaped c then
        (case encodeURIComponent cs of Inl e \<Rightarrow> Inl e | Inr r \<Rightarrow> Inr (c # r))
      else if is_trail c then Inl URIError
      else if is_lead c then
        (case cs of
           [] \<Rightarrow> Inl URIError
         | d # ds \<Rightarrow>
             if is_trail d then
               (case encodeURIComponent ds of
                  Inl e \<Rightarrow> Inl e
                | Inr r \<Rightarrow> Inr (escape_cp (UTF16SurrogatePairToCodePoint c d) @ r))
             else Inl URIError)
      else
        (case encodeURIComponent cs of
           Inl e \<Rightarrow> Inl e
         | Inr r \<Rightarrow> Inr (escape_cp (unat c) @ r)))"

subsection \<open>\<open>FormData\<close>\<close>

text \<open>
  A \<open>FormData\<close> object is an entry list of name/value pairs; \<open>get\<close> returns the value
  of the first entry with the given name, or \<open>null\<close> (here \<open>None\<close>). The constructor
  \<open>new FormData(form)\<close> converts every name and value into a scalar value string: a
  surrogate that is not part of a pair becomes U+FFFD. The contact form has no file
  control, so every value is a string.
\<close>

type_synonym formdata = "(jsstring \<times> jsstring) list"

fun scalar_value_string :: "jsstring \<Rightarrow> jsstring" where
  "scalar_value_string [] = []"
| "scalar_value_string [c] = (if is_lead c \<or> is_trail c then [0xFFFD] else [c])"
| "scalar_value_string (c # d # ds) =
     (if is_lead c \<and> is_trail d then c # d # scalar_value_string ds
      else if is_lead c \<or> is_trail c then 0xFFFD # scalar_value_string (d # ds)
      else c # scalar_value_string (d # ds))"

definition FormData_new :: "formdata \<Rightarrow> formdata" where
  "FormData_new entries =
     map (\<lambda>(n, v). (scalar_value_string n, scalar_value_string v)) entries"

definition FormData_get :: "formdata \<Rightarrow> jsstring \<Rightarrow> jsstring option" where
  "FormData_get data n = map_of data n"

text \<open>Truthiness of \<open>data.get(...)\<close>: \<open>null\<close> and the empty string are falsy.\<close>

definition truthy :: "jsstring option \<Rightarrow> bool" where
  "truthy v = (case v of None \<Rightarrow> False | Some s \<Rightarrow> s \<noteq> [])"

text \<open>\<open>String(v ?? "")\<close> for a value that is a string or \<open>null\<close>.\<close>

definition String_or_empty :: "jsstring option \<Rightarrow> jsstring" where
  "String_or_empty v = (case v of None \<Rightarrow> [] | Some s \<Rightarrow> s)"

section \<open>The page\<close>

datatype status = idle | sending | ok | error

datatype theme = light | dark

datatype ScrollBehavior = behavior_auto | behavior_smooth | behavior_instant

datatype motion = jump | animated

datatype scroll = ScrollIntoView nat ScrollBehavior motion

record element =
  elem_id :: jsstring
  tabindex :: "jsstring option"

text \<open>
  The six controls of the contact form, each with its current value, as the entry list
  of the form takes it. The \<open>select\<close> has the value \<open>""\<close> while its disabled
  placeholder option is selected.
\<close>

record controls =
  field_company :: jsstring
  field_name :: jsstring
  field_contact :: jsstring
  field_type :: jsstring
  field_date :: jsstring
  field_message :: jsstring

text \<open>
  The state of the page: the document and window the code reads and writes, the state
  of the React components (\<open>useState\<close>), what the last render showed, and for every
  effect with a dependency the value it last ran with (\<open>None\<close> before the first run).
  A state setter of React queues its update: \<open>theme\<close>, \<open>menuOpen\<close>,
  \<open>prefersReduced\<close> and \<open>status\<close> hold the state the next render will have, and
  \<open>shown_isDark\<close>, \<open>shown_menuOpen\<close> and \<open>shown_status\<close> what the last render
  had. \<open>href_assignments\<close> lists the links assigned to \<open>window.location.href\<close>;
  \<open>scrolls\<close> lists the calls of \<open>scrollIntoView\<close>. The local storage is taken to be readable and writable. The
  script element with the structured metadata, which nothing else reads, is left out.
\<close>

record page =
  elements :: "element list"
  activeElement :: "nat option"
  scrolls :: "scroll list"
  location_hash :: jsstring
  href_assignments :: "jsstring list"
  localStorage :: "jsstring \<rightharpoonup> jsstring"
  root_scrollBehavior :: jsstring
  body_overflow :: jsstring
  mql_matches :: bool
  mql_addEventListener :: bool
  mql_listening :: bool
  form :: controls
  theme :: theme
  menuOpen :: bool
  prefersReduced :: bool
  status :: status
  shown_isDark :: bool
  shown_menuOpen :: bool
  shown_status :: status
  dep_theme :: "theme option"
  dep_prefersReduced :: "bool option"
  dep_menuOpen :: "bool option"

section \<open>\<open>goTo\<close>\<close>

text \<open>\<open>id.replace(/^#/, "")\<close>: one leading \<open>#\<close> is removed.\<close>

definition strip_hash :: "jsstring \<Rightarrow> jsstring" where
  "strip_hash s = (case s of [] \<Rightarrow> [] | c # cs \<Rightarrow> if c = 0x23 then cs else s)"

fun first_with_id :: "element list \<Rightarrow> jsstring \<Rightarrow> nat option" where
  "first_with_id [] t = None"
| "first_with_id (e # es) t =
     (if elem_id e = t then Some 0 else map_option Suc (first_with_id es t))"

text \<open>
  \<open>document.getElementById\<close>: the first element in tree order with that id, as its
  position in \<open>elements\<close>; an element with an empty \<open>id\<close> attribute has no id.
\<close>

definition getElementById :: "page \<Rightarrow> jsstring \<Rightarrow> nat option" where
  "getElementById s t = (if t = [] then None else first_with_id (elements s) t)"

text \<open>
  The scroll a call performs: an explicit \<open>behavior\<close> decides, and only
  \<open>behavior: "auto"\<close> defers to the \<open>scroll-behavior\<close> style of the scrolling box,
  which for the viewport is the one of the root element.
\<close>

definition performed :: "ScrollBehavior \<Rightarrow> jsstring \<Rightarrow> motion" where
  "performed b css =
     (case b of
        behavior_smooth \<Rightarrow> animated
      | behavior_instant \<Rightarrow> jump
      | behavior_auto \<Rightarrow> if css = lit ''smooth'' then animated else jump)"

definition scrollIntoView :: "nat \<Rightarrow> ScrollBehavior \<Rightarrow> page \<Rightarrow> page" where
  "scrollIntoView el b s =
     s\<lparr>scrolls := scrolls s @ [ScrollIntoView el b (performed b (root_scrollBehavior s))]\<rparr>"

definition setAttribute_tabindex :: "nat \<Rightarrow> jsstring \<Rightarrow> page \<Rightarrow> page" where
  "setAttribute_tabindex el v s =
     s\<lparr>elements := (elements s)[el := (elements s ! el)\<lparr>tabindex := Some v\<rparr>]\<rparr>"

text \<open>
  \<open>el.focus({ preventScroll: true })\<close>: an element with a \<open>tabindex\<close> attribute is
  focusable and becomes the active element; nothing is scrolled.
\<close>

definition focus :: "nat \<Rightarrow> page \<Rightarrow> page" where
  "focus el s =
     (if el < length (elements s) \<and> tabindex (elements s ! el) \<noteq> None
      then s\<lparr>activeElement := Some el\<rparr> else s)"

text \<open>The setter of \<open>window.location.hash\<close> removes one leading \<open>#\<close> from its input.\<close>

definition set_location_hash :: "jsstring \<Rightarrow> page \<Rightarrow> page" where
  "set_location_hash v s = s\<lparr>location_hash := strip_hash v\<rparr>"

definition goTo :: "jsstring \<Rightarrow> page \<Rightarrow> page" where
  "goTo ident s =
     (let targetId = strip_hash ident in
      case getElementById s targetId of
        Some el \<Rightarrow>
          focus el (setAttribute_tabindex el (lit ''-1'') (scrollIntoView el behavior_smooth s))
      | None \<Rightarrow> set_location_hash ident s)"

section \<open>\<open>useTheme\<close>\<close>

definition theme_key :: jsstring where
  "theme_key = lit ''wcc-theme''"

definition theme_string :: "theme \<Rightarrow> jsstring" where
  "theme_string t = (case t of light \<Rightarrow> lit ''light'' | dark \<Rightarrow> lit ''dark'')"

text \<open>
  The initialiser of the theme state. Its argument is \<open>None\<close> where \<open>window\<close> is
  undefined and the local storage otherwise.
\<close>

definition initial_theme :: "(jsstring \<rightharpoonup> jsstring) option \<Rightarrow> theme" where
  "initial_theme w =
     (case w of
        None \<Rightarrow> light
      | Some storage \<Rightarrow>
          (let saved = storage theme_key in if saved = Some (lit ''dark'') then dark else light))"

definition setTheme :: "theme \<Rightarrow> page \<Rightarrow> page" where
  "setTheme v s = s\<lparr>theme := v\<rparr>"

text \<open>The effect of \<open>useTheme\<close>, with dependency \<open>[theme]\<close>.\<close>

definition effect_theme :: "page \<Rightarrow> page" where
  "effect_theme s =
     (if dep_theme s = Some (theme s) then s
      else s\<lparr>localStorage := (localStorage s)(theme_key \<mapsto> theme_string (theme s)),
             dep_theme := Some (theme s)\<rparr>)"

section \<open>\<open>usePrefersReducedMotion\<close>\<close>

definition onChange :: "page \<Rightarrow> page" where
  "onChange s = s\<lparr>prefersReduced := mql_matches s\<rparr>"

text \<open>
  The effect of \<open>usePrefersReducedMotion\<close>, run once after the first render:
  \<open>onChange()\<close>, then \<open>mql.addEventListener?.("change", onChange)\<close>, which registers
  the listener where the media query list has that method.
\<close>

definition effect_mql :: "page \<Rightarrow> page" where
  "effect_mql s = (onChange s)\<lparr>mql_listening := mql_addEventListener s\<rparr>"

section \<open>\<open>WestCoastCelebrantsModern\<close>\<close>

text \<open>The effect with dependency \<open>[prefersReduced]\<close>; its cleanup runs before a re-run.\<close>

definition effect_scrollBehavior :: "page \<Rightarrow> page" where
  "effect_scrollBehavior s =
     (if dep_prefersReduced s = Some (prefersReduced s) then s
      else
        (let s1 = (if dep_prefersReduced s = None then s
                   else s\<lparr>root_scrollBehavior := lit ''auto''\<rparr>)
         in s1\<lparr>root_scrollBehavior := (if prefersReduced s1 then lit ''auto'' else lit ''smooth''),
                dep_prefersReduced := Some (prefersReduced s1)\<rparr>))"

text \<open>The effect with dependency \<open>[menuOpen]\<close>; its cleanup runs before a re-run.\<close>

definition effect_overflow :: "page \<Rightarrow> page" where
  "effect_overflow s =
     (if dep_menuOpen s = Some (menuOpen s) then s
      else
        (let s1 = (if dep_menuOpen s = None then s else s\<lparr>body_overflow := []\<rparr>)
         in s1\<lparr>body_overflow := (if menuOpen s1 then lit ''hidden'' else []),
                dep_menuOpen := Some (menuOpen s1)\<rparr>))"

text \<open>
  A render shows the current state (\<open>isDark = theme === "dark"\<close>, the menu exactly
  when \<open>menuOpen\<close>, and the contact form, a child of the component, with its
  \<open>status\<close>); the effects whose dependency changed run after it, in the order of
  their declaration.
\<close>

definition render :: "page \<Rightarrow> page" where
  "render s =
     s\<lparr>shown_isDark := (theme s = dark), shown_menuOpen := menuOpen s,
       shown_status := status s\<rparr>"

definition run_effects :: "page \<Rightarrow> page" where
  "run_effects s = effect_overflow (effect_scrollBehavior (effect_theme s))"

definition commit :: "page \<Rightarrow> page" where
  "commit s = run_effects (render s)"

definition blank_controls :: controls where
  "blank_controls =
     \<lparr>field_company = [], field_name = [], field_contact = [], field_type = [],
      field_date = [], field_message = []\<rparr>"

text \<open>
  The page after the component is mounted in a browser with the given local storage,
  document, reduced-motion preference and support for \<open>addEventListener\<close> on media
  query lists: the first render and its effects, then the render that follows the state
  set by \<open>onChange\<close>. The effect of \<open>usePrefersReducedMotion\<close> only sets that state
  and registers the listener, and the effects of the first render see the state that
  render had, so it is put after them here.
\<close>

definition mount ::
  "(jsstring \<rightharpoonup> jsstring) \<Rightarrow> element list \<Rightarrow> bool \<Rightarrow> bool \<Rightarrow> page" where
  "mount storage els reduce listen =
     commit (effect_mql (commit
       \<lparr>elements = els, activeElement = None, scrolls = [], location_hash = [],
        href_assignments = [], localStorage = storage, root_scrollBehavior = [],
        body_overflow = [], mql_matches = reduce, mql_addEventListener = listen,
        mql_listening = False, form = blank_controls,
        theme = initial_theme (Some storage), menuOpen = False, prefersReduced = False,
        status = idle,
        shown_isDark = False, shown_menuOpen = False, shown_status = idle,
        dep_theme = None, dep_prefersReduced = None, dep_menuOpen = None\<rparr>))"

text \<open>A reload mounts the component again on the same storage and document.\<close>

definition reload :: "page \<Rightarrow> page" where
  "reload s =
     mount (localStorage s) (elements s) (mql_matches s) (mql_addEventListener s)"

text \<open>
  The system preference changes: the media query list fires \<open>change\<close>, and a registered
  listener runs \<open>onChange\<close>, followed by a render.
\<close>

definition mql_change :: "bool \<Rightarrow> page \<Rightarrow> page" where
  "mql_change m s =
     (let s1 = s\<lparr>mql_matches := m\<rparr> in
      if mql_listening s1 then commit (onChange s1) else s1)"

text \<open>The menu button: \<open>setMenuOpen((v) => !v)\<close>.\<close>

definition toggleMenu :: "page \<Rightarrow> page" where
  "toggleMenu s = s\<lparr>menuOpen := \<not> menuOpen s\<rparr>"

definition setMenuOpen :: "bool \<Rightarrow> page \<Rightarrow> page" where
  "setMenuOpen v s = s\<lparr>menuOpen := v\<rparr>"

definition startsWith_hash :: "jsstring \<Rightarrow> bool" where
  "startsWith_hash s = (case s of [] \<Rightarrow> False | c # cs \<Rightarrow> c = 0x23)"

text \<open>
  The click handler of \<open>NavLink\<close>, with the optional \<open>onClick\<close> of its caller. For a
  link that does not start with \<open>#\<close> the handler does nothing and the user agent follows
  the link.
\<close>

definition NavLink_onClick :: "jsstring \<Rightarrow> (page \<Rightarrow> page) option \<Rightarrow> page \<Rightarrow> page" where
  "NavLink_onClick href onClick s =
     (if startsWith_hash href then
        (let s1 = goTo href s in case onClick of None \<Rightarrow> s1 | Some f \<Rightarrow> f s1)
      else s)"

definition mobile_menu_links :: "(jsstring \<times> jsstring) list" where
  "mobile_menu_links =
     [(lit ''About'', lit ''#about''),
      (lit ''Services'', lit ''#services''),
      (lit ''Gallery'', lit ''#gallery''),
      (lit ''How it works'', lit ''#how-it-works''),
      (lit ''Weddings'', lit ''#weddings''),
      (lit ''Vow renewals'', lit ''#vow-renewals''),
      (lit ''Naming'', lit ''#naming''),
      (lit ''Celebration of life'', lit ''#celebration-of-life''),
      (lit ''Privacy'', lit ''#privacy''),
      (lit ''Contact'', lit ''#contact'')]"

text \<open>A link of the mobile menu: \<open>onClick={() => setMenuOpen(false)}\<close>.\<close>

definition mobile_menu_click :: "jsstring \<Rightarrow> page \<Rightarrow> page" where
  "mobile_menu_click href s = NavLink_onClick href (Some (setMenuOpen False)) s"

subsection \<open>Service cards\<close>

definition serviceToId :: "(jsstring \<times> jsstring) list" where
  "serviceToId =
     [(lit ''Legal Weddings'', lit ''weddings''),
      (lit ''Commitment Weddings'', lit ''weddings''),
      (lit ''Elopement Weddings'', lit ''weddings''),
      (lit ''Naming Ceremonies'', lit ''naming''),
      (lit ''Vow Renewals'', lit ''vow-renewals''),
      (lit ''Celebration of Life'', lit ''celebration-of-life'')]"

definition service_cards :: "jsstring list" where
  "service_cards =
     [lit ''Legal Weddings'', lit ''Commitment Weddings'', lit ''Elopement Weddings'',
      lit ''Naming Ceremonies'', lit ''Vow Renewals'', lit ''Celebration of Life'']"

definition divider_labels :: "jsstring list" where
  "divider_labels =
     [lit ''Legal Weddings'', lit ''Commitment Weddings'', lit ''Elopement Weddings'',
      lit ''Naming Ceremonies'', lit ''Vow Renewals'', lit ''Celebration of Life Ceremonies'']"

text \<open>
  \<open>s.replace(pat, rep)\<close> with a string pattern and a replacement without \<open>$\<close>: the
  first occurrence is replaced.
\<close>

fun replace_first :: "jsstring \<Rightarrow> jsstring \<Rightarrow> jsstring \<Rightarrow> jsstring" where
  "replace_first pat rep [] = (if pat = [] then rep else [])"
| "replace_first pat rep (c # cs) =
     (if take (length pat) (c # cs) = pat then rep @ drop (length pat) (c # cs)
      else c # replace_first pat rep cs)"

text \<open>
  \<open>serviceToId[title] ?? "services"\<close>: the id that a click on a card hands to
  \<open>goTo\<close> after \<open>#\<close>. For an entry of the divider list the key is
  \<open>label.replace(" Ceremonies", "")\<close>. No title or key of the page names a property
  that an object inherits, so the lookup is the one in the six pairs.
\<close>

definition card_target :: "jsstring \<Rightarrow> jsstring" where
  "card_target title =
     (case map_of serviceToId title of Some t \<Rightarrow> t | None \<Rightarrow> lit ''services'')"

definition divider_target :: "jsstring \<Rightarrow> jsstring" where
  "divider_target label = card_target (replace_first (lit '' Ceremonies'') [] label)"

text \<open>The ids of the sections the component renders, in the order of the page.\<close>

definition section_ids :: "jsstring list" where
  "section_ids =
     [lit ''home'', lit ''about'', lit ''services'', lit ''gallery'', lit ''how-it-works'',
      lit ''weddings'', lit ''vow-renewals'', lit ''naming'', lit ''celebration-of-life'',
      lit ''your-funeral'', lit ''faq'', lit ''privacy'', lit ''contact'']"

section \<open>\<open>ContactForm\<close>\<close>

text \<open>
  The entry list of the form, in tree order. An \<open>input\<close> or \<open>textarea\<close> always
  contributes its value; the \<open>select\<close> contributes nothing while the disabled
  placeholder is its selected option.
\<close>

definition form_entries :: "controls \<Rightarrow> formdata" where
  "form_entries c =
     [(lit ''company'', field_company c), (lit ''name'', field_name c),
      (lit ''contact'', field_contact c)] @
     (if field_type c = [] then [] else [(lit ''type'', field_type c)]) @
     [(lit ''date'', field_date c), (lit ''message'', field_message c)]"

text \<open>
  The setter of the \<open>status\<close> state. It queues the update and renders nothing: the
  form is rendered again when the event handler that called it has returned.
\<close>

definition setStatus :: "status \<Rightarrow> page \<Rightarrow> page" where
  "setStatus v s = s\<lparr>status := v\<rparr>"

text \<open>
  The render of \<open>ContactForm\<close> that follows an event in which its state was set. The
  component has no effects.
\<close>

definition render_form :: "page \<Rightarrow> page" where
  "render_form s = s\<lparr>shown_status := status s\<rparr>"

text \<open>\<open>form.reset()\<close>: every control of the form has the empty default value.\<close>

definition form_reset :: "page \<Rightarrow> page" where
  "form_reset s = s\<lparr>form := blank_controls\<rparr>"

text \<open>The five encodings and the template literal of the \<open>try\<close> block.\<close>

definition compose_mailto :: "formdata \<Rightarrow> js_exn + jsstring" where
  "compose_mailto data =
     bind_exn (encodeURIComponent (String_or_empty (FormData_get data (lit ''name'')))) (\<lambda>name.
     bind_exn (encodeURIComponent (String_or_empty (FormData_get data (lit ''contact'')))) (\<lambda>contact.
     bind_exn (encodeURIComponent (String_or_empty (FormData_get data (lit ''type'')))) (\<lambda>type.
     bind_exn (encodeURIComponent (String_or_empty (FormData_get data (lit ''date'')))) (\<lambda>date.
     bind_exn (encodeURIComponent (String_or_empty (FormData_get data (lit ''message'')))) (\<lambda>message.
     Inr (lit ''mailto:westcoastcelebrants@gmail.com?subject=Enquiry from '' @ name @
          lit ''&body=Contact: '' @ contact @ lit ''%0AType: '' @ type @
          lit ''%0ADate: '' @ date @ lit ''%0A%0A'' @ message))))))"

text \<open>
  The assignment to \<open>window.location.href\<close>. Whether the user agent throws is not
  decided by the code: \<open>nav\<close> gives the exception it throws for a link, if any.
\<close>

definition assign_href ::
  "(jsstring \<Rightarrow> js_exn option) \<Rightarrow> jsstring \<Rightarrow> page \<Rightarrow> (js_exn \<times> page) + page" where
  "assign_href nav url s =
     (let s1 = s\<lparr>href_assignments := href_assignments s @ [url]\<rparr> in
      case nav url of Some e \<Rightarrow> Inl (e, s1) | None \<Rightarrow> Inr s1)"

text \<open>The \<open>try\<close> block: \<open>Inl\<close> carries the exception and the page at the throw.\<close>

definition try_block ::
  "(jsstring \<Rightarrow> js_exn option) \<Rightarrow> formdata \<Rightarrow> page \<Rightarrow> (js_exn \<times> page) + page" where
  "try_block nav data s =
     (case compose_mailto data of
        Inl e \<Rightarrow> Inl (e, s)
      | Inr url \<Rightarrow>
          (case assign_href nav url s of
             Inl thrown \<Rightarrow> Inl thrown
           | Inr s1 \<Rightarrow> Inr (form_reset (setStatus ok s1))))"

text \<open>
  \<open>onSubmit\<close> from the honeypot check on, for the data read from the form.
  \<open>e.preventDefault()\<close> before it acts on the event and leaves the page as it is.
  The function is declared \<open>async\<close> and has no \<open>await\<close>: its body runs to its end
  within the submit event, so both calls of \<open>setStatus\<close> are made before the form is
  rendered again.
\<close>

definition onSubmit_data ::
  "(jsstring \<Rightarrow> js_exn option) \<Rightarrow> formdata \<Rightarrow> page \<Rightarrow> page" where
  "onSubmit_data nav data s =
     (if truthy (FormData_get data (lit ''company'')) then s
      else
        (let s1 = setStatus sending s in
         case try_block nav data s1 of
           Inr s2 \<Rightarrow> s2
         | Inl (e, s2) \<Rightarrow> setStatus error s2))"

definition onSubmit :: "(jsstring \<Rightarrow> js_exn option) \<Rightarrow> page \<Rightarrow> page" where
  "onSubmit nav s = onSubmit_data nav (FormData_new (form_entries (form s))) s"

text \<open>
  The submit event as the page sees it: the handler, then the render of the form that
  React makes once the handler has returned.
\<close>

definition submit_event :: "(jsstring \<Rightarrow> js_exn option) \<Rightarrow> page \<Rightarrow> page" where
  "submit_event nav s = render_form (onSubmit nav s)"

text \<open>
  The submit button as rendered for a status: \<open>disabled={status === "sending"}\<close> and
  the label \<open>status === "sending" ? "Sending\<dots>" : "Send enquiry"\<close>.
\<close>

definition submit_disabled :: "status \<Rightarrow> bool" where
  "submit_disabled v \<longleftrightarrow> v = sending"

definition submit_label :: "status \<Rightarrow> jsstring" where
  "submit_label v = (if v = sending then lit ''Sending'' @ [0x2026] else lit ''Send enquiry'')"

text \<open>The paragraph shown below the form for a status, if any.\<close>

definition status_message :: "status \<Rightarrow> jsstring option" where
  "status_message v =
     (case v of
        ok \<Rightarrow> Some (lit ''Thanks! We'' @ [0x2019] @ lit ''ll get back to you soon.'')
      | error \<Rightarrow> Some (lit ''Sorry, something went wrong. Please email us directly.'')
      | _ \<Rightarrow> None)"

section \<open>Example submissions\<close>

text \<open>A user agent that accepts every link, and one that refuses every link.\<close>

definition no_throw :: "jsstring \<Rightarrow> js_exn option" where
  "no_throw url = None"

definition always_throws :: "jsstring \<Rightarrow> js_exn option" where
  "always_throws url = Some (HostError (lit ''SecurityError''))"

text \<open>The submission of the specification's example, on a freshly mounted page.\<close>

definition jane_controls :: controls where
  "jane_controls =
     \<lparr>field_company = [], field_name = lit ''Jane'', field_contact = lit ''jane@example.com'',
      field_type = lit ''Legal Wedding'', field_date = [], field_message = lit ''Hello''\<rparr>"

definition jane_page :: page where
  "jane_page = (mount Map.empty [] False True)\<lparr>form := jane_controls\<rparr>"

text \<open>The same submission with the hidden field filled in, and with no ceremony type chosen.\<close>

definition bot_page :: page where
  "bot_page = jane_page\<lparr>form := jane_controls\<lparr>field_company := lit ''Acme Ltd''\<rparr>\<rparr>"

definition untyped_controls :: controls where
  "untyped_controls = jane_controls\<lparr>field_type := []\<rparr>"

text \<open>
  The shape of the link in the words of the specification, with a line feed at every line
  break it writes, for five values that are already encoded.
\<close>

definition spec_mailto ::
  "jsstring \<Rightarrow> jsstring \<Rightarrow> jsstring \<Rightarrow> jsstring \<Rightarrow> jsstring \<Rightarrow> jsstring" where
  "spec_mailto name contact type date message =
     lit ''mailto:westcoastcelebrants@gmail.com?subject=Enquiry from '' @ name @
     lit ''&body=Contact: '' @ contact @ [0x0A] @ lit ''Type: '' @ type @ [0x0A] @
     lit ''Date: '' @ date @ [0x0A, 0x0A] @ message"

section \<open>Example pages\<close>

text \<open>
  The elements of the rendered page that have an id, in tree order: \<open>main\<close>, the hero
  section \<open>home\<close>, and the sections rendered by \<open>Section\<close>, which carry
  \<open>tabIndex={-1}\<close>.
\<close>

definition page_elements :: "element list" where
  "page_elements =
     \<lparr>elem_id = lit ''main'', tabindex = None\<rparr> #
     \<lparr>elem_id = lit ''home'', tabindex = None\<rparr> #
     map (\<lambda>i. \<lparr>elem_id = i, tabindex = Some (lit ''-1'')\<rparr>) (tl section_ids)"

text \<open>
  The page once mounted, with an empty local storage: without and with the system
  preference for reduced motion.
\<close>

definition fresh_page :: page where
  "fresh_page = mount Map.empty page_elements False True"

definition reduced_page :: page where
  "reduced_page = mount Map.empty page_elements True True"

section \<open>Pages at rest\<close>

text \<open>
  The effect of \<open>useTheme\<close> has run for the current theme, and the storage holds what
  it wrote.
\<close>

definition theme_persisted :: "page \<Rightarrow> bool" where
  "theme_persisted s \<longleftrightarrow>
     dep_theme s = Some (theme s) \<and>
     localStorage s theme_key = Some (theme_string (theme s))"

text \<open>A call of \<open>setTheme\<close>, and the render with its effects that follows it.\<close>

definition setTheme_commit :: "theme \<Rightarrow> page \<Rightarrow> page" where
  "setTheme_commit v s = commit (setTheme v s)"

text \<open>
  The page as a render and its effects leave it: what is shown is the current state,
  every effect has run for the current value of its dependency, and the overflow of
  the body is the one written for \<open>menuOpen\<close>.
\<close>

definition settled :: "page \<Rightarrow> bool" where
  "settled s \<longleftrightarrow>
     shown_isDark s = (theme s = dark) \<and> shown_menuOpen s = menuOpen s \<and>
     shown_status s = status s \<and>
     dep_theme s = Some (theme s) \<and> dep_prefersReduced s = Some (prefersReduced s) \<and>
     dep_menuOpen s = Some (menuOpen s) \<and>
     body_overflow s = (if menuOpen s then lit ''hidden'' else [])"

section \<open>Mounting\<close>

lemma lit_append: "lit (a @ b) = lit a @ lit b"
  by (simp add: lit_def)

lemmas mount_simps =
  mount_def commit_def run_effects_def render_def effect_mql_def onChange_def effect_theme_def
  effect_scrollBehavior_def effect_overflow_def Let_def

lemma theme_commit [simp]: "theme (commit s) = theme s"
  by (simp add: commit_def run_effects_def render_def effect_theme_def effect_scrollBehavior_def
      effect_overflow_def Let_def)

lemma theme_mount: "theme (mount storage els reduce listen) = initial_theme (Some storage)"
  by (simp add: mount_def effect_mql_def onChange_def)

lemma mount_persisted: "theme_persisted (mount storage els reduce listen)"
  by (simp add: theme_persisted_def mount_simps)

lemma mount_settled: "settled (mount storage els reduce listen)"
  by (simp add: settled_def mount_simps)

lemma fresh_elements: "elements fresh_page = page_elements"
  by (simp add: fresh_page_def mount_simps)

lemma fresh_scrolls: "scrolls fresh_page = []"
  by (simp add: fresh_page_def mount_simps)

lemma fresh_closed: "\<not> menuOpen fresh_page" "body_overflow fresh_page = []"
  by (simp_all add: fresh_page_def mount_simps)

lemma fresh_persisted: "theme_persisted fresh_page"
  unfolding fresh_page_def by (rule mount_persisted)

lemma fresh_contact: "getElementById fresh_page (lit ''contact'') = Some 13"
  by (simp add: getElementById_def fresh_elements page_elements_def section_ids_def lit_def)

lemma fresh_nonexistent: "getElementById fresh_page (lit ''nonexistent'') = None"
  by (simp add: getElementById_def fresh_elements page_elements_def section_ids_def lit_def)

lemma reduced_elements: "elements reduced_page = page_elements"
  by (simp add: reduced_page_def mount_simps)

lemma reduced_contact: "getElementById reduced_page (lit ''#'' @ lit ''contact'') = None"
  "getElementById reduced_page (lit ''contact'') = Some 13"
  by (simp_all add: getElementById_def reduced_elements page_elements_def section_ids_def lit_def)

lemma changed_elements: "elements (mql_change True fresh_page) = page_elements"
  by (simp add: mql_change_def fresh_page_def mount_simps)

lemma changed_contact: "getElementById (mql_change True fresh_page) (lit ''contact'') = Some 13"
  by (simp add: getElementById_def changed_elements page_elements_def section_ids_def lit_def)

section \<open>Navigation\<close>

lemma strip_hash_Cons [simp]: "strip_hash (lit ''#'' @ sid) = sid"
  by (simp add: strip_hash_def lit_def)

lemma strip_hash_plain: "\<not> startsWith_hash sid \<Longrightarrow> strip_hash sid = sid"
  by (simp add: strip_hash_def startsWith_hash_def split: list.splits)

lemma first_with_id_Some:
  "first_with_id es t = Some i \<Longrightarrow> i < length es \<and> elem_id (es ! i) = t"
  by (induction es arbitrary: i) (auto split: if_splits)

lemma goTo_found:
  assumes "getElementById s (strip_hash ident) = Some el"
  shows "goTo ident s =
     s\<lparr>scrolls := scrolls s @ [ScrollIntoView el behavior_smooth animated],
       elements := (elements s)[el := (elements s ! el)\<lparr>tabindex := Some (lit ''-1'')\<rparr>],
       activeElement := Some el\<rparr>"
proof -
  from assms have "el < length (elements s)"
    by (auto simp: getElementById_def dest: first_with_id_Some split: if_splits)
  with assms show ?thesis
    by (simp add: goTo_def scrollIntoView_def setAttribute_tabindex_def focus_def performed_def)
qed

lemma goTo_missing:
  assumes "getElementById s (strip_hash ident) = None"
  shows "goTo ident s = s\<lparr>location_hash := strip_hash ident\<rparr>"
  using assms by (simp add: goTo_def set_location_hash_def)

text \<open>
  Claim C5. No section id of the page starts with \<open>#\<close>, and for every id \<open>sid\<close>
  that does not, \<open>goTo(sid)\<close> and \<open>goTo("#" + sid)\<close> leave the same page. When an
  element has the id \<open>sid\<close>, \<open>goTo("#" + sid)\<close> scrolls the first such element into
  view, gives it \<open>tabindex="-1"\<close> and makes it the active element, and changes nothing
  else; when none has, the call returns and only sets the fragment to \<open>sid\<close>.
\<close>

theorem goTo_with_or_without_hash:
  "(\<forall>i \<in> set section_ids. \<not> startsWith_hash i) \<and>
   (\<not> startsWith_hash sid \<longrightarrow> goTo sid s = goTo (lit ''#'' @ sid) s) \<and>
   (\<forall>el. getElementById s sid = Some el \<longrightarrow>
      elem_id (elements s ! el) = sid \<and>
      goTo (lit ''#'' @ sid) s =
        s\<lparr>scrolls := scrolls s @ [ScrollIntoView el behavior_smooth animated],
          elements := (elements s)[el := (elements s ! el)\<lparr>tabindex := Some (lit ''-1'')\<rparr>],
          activeElement := Some el\<rparr>) \<and>
   (getElementById s sid = None \<longrightarrow> goTo (lit ''#'' @ sid) s = s\<lparr>location_hash := sid\<rparr>)"
proof (intro conjI allI impI)
  show "\<forall>i \<in> set section_ids. \<not> startsWith_hash i"
    by (simp add: section_ids_def startsWith_hash_def lit_def)
next
  assume "\<not> startsWith_hash sid"
  then have "strip_hash sid = sid"
    by (rule strip_hash_plain)
  then show "goTo sid s = goTo (lit ''#'' @ sid) s"
    by (simp add: goTo_def set_location_hash_def split: option.splits)
next
  fix el assume "getElementById s sid = Some el"
  then show "elem_id (elements s ! el) = sid"
    by (auto simp: getElementById_def dest: first_with_id_Some split: if_splits)
next
  fix el assume "getElementById s sid = Some el"
  then show "goTo (lit ''#'' @ sid) s =
        s\<lparr>scrolls := scrolls s @ [ScrollIntoView el behavior_smooth animated],
          elements := (elements s)[el := (elements s ! el)\<lparr>tabindex := Some (lit ''-1'')\<rparr>],
          activeElement := Some el\<rparr>"
    by (simp add: goTo_found)
next
  assume "getElementById s sid = None"
  then show "goTo (lit ''#'' @ sid) s = s\<lparr>location_hash := sid\<rparr>"
    by (simp add: goTo_missing)
qed

text \<open>
  On the mounted page, \<open>contact\<close> and \<open>#contact\<close> both focus the contact section,
  the element at position 13, and \<open>nonexistent\<close> only sets the fragment.
\<close>

theorem goTo_with_or_without_hash_witness:
  "lit ''contact'' \<in> set section_ids \<and>
   \<not> startsWith_hash (lit ''contact'') \<and>
   getElementById fresh_page (lit ''contact'') = Some 13 \<and>
   goTo (lit ''contact'') fresh_page = goTo (lit ''#contact'') fresh_page \<and>
   scrolls (goTo (lit ''#contact'') fresh_page) = [ScrollIntoView 13 behavior_smooth animated] \<and>
   activeElement (goTo (lit ''#contact'') fresh_page) = Some 13 \<and>
   getElementById fresh_page (lit ''nonexistent'') = None \<and>
   goTo (lit ''#nonexistent'') fresh_page = fresh_page\<lparr>location_hash := lit ''nonexistent''\<rparr> \<and>
   goTo (lit ''nonexistent'') fresh_page = fresh_page\<lparr>location_hash := lit ''nonexistent''\<rparr>"
proof -
  have plain: "\<not> startsWith_hash (lit ''contact'')" "\<not> startsWith_hash (lit ''nonexistent'')"
    by (simp_all add: startsWith_hash_def lit_def)
  have marked: "lit ''#'' @ lit ''contact'' = lit ''#contact''"
    "lit ''#'' @ lit ''nonexistent'' = lit ''#nonexistent''"
    by (simp_all add: lit_append [symmetric])
  note found = goTo_with_or_without_hash [of "lit ''contact''" fresh_page]
  note missing = goTo_with_or_without_hash [of "lit ''nonexistent''" fresh_page]
  from found plain fresh_contact
  have 1: "goTo (lit ''contact'') fresh_page = goTo (lit ''#contact'') fresh_page"
    and 2: "goTo (lit ''#contact'') fresh_page =
        fresh_page\<lparr>scrolls := scrolls fresh_page @ [ScrollIntoView 13 behavior_smooth animated],
          elements := (elements fresh_page)[13 := (elements fresh_page ! 13)\<lparr>tabindex := Some (lit ''-1'')\<rparr>],
          activeElement := Some 13\<rparr>"
    by (simp_all add: marked)
  from missing plain fresh_nonexistent
  have 3: "goTo (lit ''nonexistent'') fresh_page = goTo (lit ''#nonexistent'') fresh_page"
    and 4: "goTo (lit ''#nonexistent'') fresh_page = fresh_page\<lparr>location_hash := lit ''nonexistent''\<rparr>"
    by (simp_all add: marked)
  have "lit ''contact'' \<in> set section_ids"
    by (simp add: section_ids_def)
  with 1 2 3 4 plain fresh_contact fresh_nonexistent show ?thesis
    by (simp add: fresh_scrolls)
qed

text \<open>
  Claim C4, evaluated. With the reduced-motion preference set at start, the flag
  \<open>prefersReduced\<close> is true and the root element has \<open>scroll-behavior: auto\<close>, yet
  \<open>goTo("#contact")\<close> calls \<open>scrollIntoView\<close> with \<open>behavior: "smooth"\<close> and the
  scroll is animated. The same holds when the preference is set by a later
  \<open>change\<close> event: the listener updates the flag, and \<open>goTo\<close> still animates.
\<close>

theorem goTo_animates_under_reduced_motion:
  "prefersReduced reduced_page \<and>
   root_scrollBehavior reduced_page = lit ''auto'' \<and>
   scrolls (goTo (lit ''#contact'') reduced_page) =
     [ScrollIntoView 13 behavior_smooth animated] \<and>
   \<not> prefersReduced fresh_page \<and>
   prefersReduced (mql_change True fresh_page) \<and>
   root_scrollBehavior (mql_change True fresh_page) = lit ''auto'' \<and>
   scrolls (goTo (lit ''#contact'') (mql_change True fresh_page)) =
     [ScrollIntoView 13 behavior_smooth animated]"
proof -
  have flags: "prefersReduced reduced_page" "root_scrollBehavior reduced_page = lit ''auto''"
    "scrolls reduced_page = []"
    by (simp_all add: reduced_page_def mount_simps)
  have changed: "\<not> prefersReduced fresh_page" "prefersReduced (mql_change True fresh_page)"
    "root_scrollBehavior (mql_change True fresh_page) = lit ''auto''"
    "scrolls (mql_change True fresh_page) = []"
    by (simp_all add: mql_change_def fresh_page_def mount_simps)
  have target: "strip_hash (lit ''#contact'') = lit ''contact''"
    by (simp add: strip_hash_def lit_def)
  have "scrolls (goTo (lit ''#contact'') reduced_page) =
     [ScrollIntoView 13 behavior_smooth animated]"
    by (simp add: goTo_found [where el = 13] target reduced_contact flags)
  moreover have "scrolls (goTo (lit ''#contact'') (mql_change True fresh_page)) =
     [ScrollIntoView 13 behavior_smooth animated]"
    by (simp add: goTo_found [where el = 13] target changed_contact changed)
  ultimately show ?thesis
    using flags changed by simp
qed

section \<open>Theme\<close>

text \<open>
  Claim C6. The theme after mounting is \<open>dark\<close> exactly when the storage holds
  \<open>dark\<close> under the key \<open>wcc-theme\<close>; when the key is absent or holds anything
  else, and where there is no \<open>window\<close>, it is \<open>light\<close>.
\<close>

theorem initial_theme_from_storage:
  "(theme (mount storage els reduce listen) = dark \<longleftrightarrow>
      storage (lit ''wcc-theme'') = Some (lit ''dark'')) \<and>
   (theme (mount storage els reduce listen) = light \<longleftrightarrow>
      storage (lit ''wcc-theme'') \<noteq> Some (lit ''dark'')) \<and>
   initial_theme None = light"
  by (simp add: theme_mount initial_theme_def theme_key_def Let_def)

text \<open>
  The stored values \<open>dark\<close>, \<open>light\<close> and \<open>Dark\<close>, and an empty storage.
\<close>

theorem initial_theme_from_storage_witness:
  "theme (mount [lit ''wcc-theme'' \<mapsto> lit ''dark''] page_elements False True) = dark \<and>
   theme (mount [lit ''wcc-theme'' \<mapsto> lit ''light''] page_elements False True) = light \<and>
   theme (mount [lit ''wcc-theme'' \<mapsto> lit ''Dark''] page_elements False True) = light \<and>
   theme (mount Map.empty page_elements False True) = light"
  using initial_theme_from_storage [of "[lit ''wcc-theme'' \<mapsto> lit ''dark'']" page_elements False True]
    initial_theme_from_storage [of "[lit ''wcc-theme'' \<mapsto> lit ''light'']" page_elements False True]
    initial_theme_from_storage [of "[lit ''wcc-theme'' \<mapsto> lit ''Dark'']" page_elements False True]
    initial_theme_from_storage [of Map.empty page_elements False True]
  by (simp add: lit_def)

lemma localStorage_render [simp]: "localStorage (render s) = localStorage s"
  by (simp add: render_def)

lemma localStorage_setTheme [simp]: "localStorage (setTheme v s) = localStorage s"
  by (simp add: setTheme_def)

lemma localStorage_commit:
  "localStorage (commit s) =
     (if dep_theme s = Some (theme s) then localStorage s
      else (localStorage s)(theme_key \<mapsto> theme_string (theme s)))"
  by (simp add: commit_def run_effects_def render_def effect_theme_def effect_scrollBehavior_def
      effect_overflow_def Let_def)

lemma dep_theme_commit [simp]: "dep_theme (commit s) = Some (theme s)"
  by (simp add: commit_def run_effects_def render_def effect_theme_def effect_scrollBehavior_def
      effect_overflow_def Let_def)

lemma setTheme_commit_persisted:
  assumes "theme_persisted s"
  shows "theme_persisted (setTheme_commit v s)" and "theme (setTheme_commit v s) = v"
  using assms
  by (auto simp: theme_persisted_def setTheme_commit_def localStorage_commit setTheme_def)

lemma setTheme_commits:
  assumes "theme_persisted s"
  shows "theme_persisted (foldl (\<lambda>s v. setTheme_commit v s) s vs) \<and>
         theme (foldl (\<lambda>s v. setTheme_commit v s) s vs) = last (theme s # vs)"
  using assms
proof (induction vs arbitrary: s)
  case Nil
  then show ?case by simp
next
  case (Cons v vs)
  from Cons.prems have "theme_persisted (setTheme_commit v s)" "theme (setTheme_commit v s) = v"
    by (rule setTheme_commit_persisted)+
  with Cons.IH [of "setTheme_commit v s"] show ?case
    by simp
qed

lemma theme_string_dark [simp]: "theme_string t = lit ''dark'' \<longleftrightarrow> t = dark"
  by (cases t) (simp_all add: theme_string_def lit_def)

lemma theme_reload:
  assumes "theme_persisted s"
  shows "theme (reload s) = theme s"
proof -
  have "theme (reload s) = initial_theme (Some (localStorage s))"
    by (simp add: reload_def theme_mount)
  also from assms have "\<dots> = theme s"
    by (cases "theme s") (simp_all add: initial_theme_def theme_persisted_def Let_def)
  finally show ?thesis .
qed

text \<open>
  Claim C7, as the code has it. \<open>setTheme(v)\<close> and the render that shows \<open>v\<close>
  leave the storage as it was; the effect that runs after that render writes \<open>v\<close>
  under the key \<open>wcc-theme\<close>. After any sequence of \<open>setTheme\<close> calls, each followed
  by its render and effects, a reload starts with the last value set.
\<close>

theorem theme_persists_after_effects:
  assumes "theme_persisted s"
  shows "localStorage (render (setTheme v s)) = localStorage s \<and>
         shown_isDark (render (setTheme v s)) = (v = dark) \<and>
         localStorage (setTheme_commit v s) theme_key = Some (theme_string v) \<and>
         theme (reload (foldl (\<lambda>s v. setTheme_commit v s) s vs)) = last (theme s # vs)"
proof -
  have "shown_isDark (render (setTheme v s)) = (v = dark)"
    by (simp add: render_def setTheme_def)
  moreover from setTheme_commit_persisted [OF assms, of v]
  have "localStorage (setTheme_commit v s) theme_key = Some (theme_string v)"
    by (simp add: theme_persisted_def)
  moreover from setTheme_commits [OF assms, of vs]
  have "theme (reload (foldl (\<lambda>s v. setTheme_commit v s) s vs)) = last (theme s # vs)"
    by (simp add: theme_reload)
  ultimately show ?thesis
    by simp
qed

text \<open>
  On the mounted page: dark; dark, light, dark; and dark, light.
\<close>

theorem theme_persists_after_effects_witness:
  "theme_persisted fresh_page \<and>
   localStorage (setTheme_commit dark fresh_page) theme_key = Some (lit ''dark'') \<and>
   theme (reload (setTheme_commit dark fresh_page)) = dark \<and>
   theme (reload (setTheme_commit dark (setTheme_commit light (setTheme_commit dark fresh_page)))) = dark \<and>
   theme (reload (setTheme_commit light (setTheme_commit dark fresh_page))) = light"
  using fresh_persisted
    theme_persists_after_effects [OF fresh_persisted, of dark "[dark]"]
    theme_persists_after_effects [OF fresh_persisted, of dark "[dark, light, dark]"]
    theme_persists_after_effects [OF fresh_persisted, of dark "[dark, light]"]
  by (simp add: theme_string_def)

text \<open>
  \<open>setTheme\<close> does not persist before the render: on the mounted page the storage
  still holds \<open>light\<close> after \<open>setTheme("dark")\<close> and after the render that shows
  the dark theme, and a reload at that moment starts with \<open>light\<close>.
\<close>

theorem setTheme_persists_immediately_counterexample:
  "theme fresh_page = light \<and>
   localStorage (setTheme dark fresh_page) theme_key = Some (lit ''light'') \<and>
   shown_isDark (render (setTheme dark fresh_page)) \<and>
   localStorage (render (setTheme dark fresh_page)) theme_key = Some (lit ''light'') \<and>
   theme (reload (render (setTheme dark fresh_page))) = light"
proof -
  have "theme fresh_page = light" "localStorage fresh_page theme_key = Some (lit ''light'')"
    by (simp_all add: fresh_page_def mount_simps initial_theme_def theme_string_def)
  moreover have "theme (reload (render (setTheme dark fresh_page))) =
      initial_theme (Some (localStorage fresh_page))"
    by (simp add: reload_def theme_mount)
  ultimately show ?thesis
    by (simp add: render_def setTheme_def initial_theme_def lit_def)
qed

section \<open>Mobile menu\<close>

lemma hidden_not_empty [simp]: "lit ''hidden'' \<noteq> []"
  by (simp add: lit_def)

lemma commit_toggle_open:
  assumes "settled s" "\<not> menuOpen s"
  shows "commit (toggleMenu s) =
     s\<lparr>menuOpen := True, shown_menuOpen := True, dep_menuOpen := Some True,
       body_overflow := lit ''hidden''\<rparr>"
  using assms
  by (simp add: settled_def toggleMenu_def commit_def run_effects_def render_def effect_theme_def
      effect_scrollBehavior_def effect_overflow_def Let_def)

lemma commit_toggle_close:
  assumes "settled s" "\<not> menuOpen s"
  shows "commit (toggleMenu (commit (toggleMenu s))) = s"
  using assms
  by (simp add: commit_toggle_open)
    (simp add: settled_def toggleMenu_def commit_def run_effects_def render_def effect_theme_def
      effect_scrollBehavior_def effect_overflow_def Let_def)

lemma mobile_menu_hrefs:
  "\<forall>href \<in> set (map snd mobile_menu_links). startsWith_hash href"
  by (simp add: mobile_menu_links_def startsWith_hash_def lit_def)

lemma goTo_setMenuOpen: "setMenuOpen v (goTo ident s) = goTo ident (setMenuOpen v s)"
  by (simp add: goTo_def setMenuOpen_def getElementById_def set_location_hash_def focus_def
      setAttribute_tabindex_def scrollIntoView_def Let_def split: option.splits)

lemma getElementById_elements:
  "elements s' = elements s \<Longrightarrow> getElementById s' t = getElementById s t"
  by (simp add: getElementById_def)

lemma goTo_frame [simp]:
  "menuOpen (goTo ident s) = menuOpen s" "body_overflow (goTo ident s) = body_overflow s"
  by (simp_all add: goTo_def getElementById_def set_location_hash_def focus_def
      setAttribute_tabindex_def scrollIntoView_def Let_def split: option.splits)

lemma menu_click_closes:
  assumes "settled s" "\<not> menuOpen s" "startsWith_hash href"
  shows "commit (mobile_menu_click href (commit (toggleMenu s))) = goTo href s"
proof -
  let ?s2 = "s\<lparr>menuOpen := False, shown_menuOpen := True, dep_menuOpen := Some True,
       body_overflow := lit ''hidden''\<rparr>"
  have "mobile_menu_click href (commit (toggleMenu s)) =
      setMenuOpen False (goTo href (commit (toggleMenu s)))"
    using assms(3) by (simp add: mobile_menu_click_def NavLink_onClick_def)
  also have "\<dots> = goTo href (setMenuOpen False (commit (toggleMenu s)))"
    by (rule goTo_setMenuOpen)
  also have "setMenuOpen False (commit (toggleMenu s)) = ?s2"
    using assms(1,2) by (simp add: commit_toggle_open setMenuOpen_def)
  finally have click: "mobile_menu_click href (commit (toggleMenu s)) = goTo href ?s2" .
  have same: "getElementById ?s2 (strip_hash href) = getElementById s (strip_hash href)"
    by (rule getElementById_elements) simp
  show ?thesis
  proof (cases "getElementById s (strip_hash href)")
    case None
    with same have "goTo href ?s2 = ?s2\<lparr>location_hash := strip_hash href\<rparr>"
      by (simp add: goTo_missing)
    moreover from None have "goTo href s = s\<lparr>location_hash := strip_hash href\<rparr>"
      by (rule goTo_missing)
    ultimately show ?thesis
      using assms(1,2) unfolding click
      by (simp add: settled_def commit_def run_effects_def render_def effect_theme_def
          effect_scrollBehavior_def effect_overflow_def Let_def)
  next
    case (Some el)
    with same have "goTo href ?s2 =
       ?s2\<lparr>scrolls := scrolls ?s2 @ [ScrollIntoView el behavior_smooth animated],
         elements := (elements ?s2)[el := (elements ?s2 ! el)\<lparr>tabindex := Some (lit ''-1'')\<rparr>],
         activeElement := Some el\<rparr>"
      by (simp add: goTo_found)
    moreover from Some have "goTo href s =
       s\<lparr>scrolls := scrolls s @ [ScrollIntoView el behavior_smooth animated],
         elements := (elements s)[el := (elements s ! el)\<lparr>tabindex := Some (lit ''-1'')\<rparr>],
         activeElement := Some el\<rparr>"
      by (rule goTo_found)
    ultimately show ?thesis
      using assms(1,2) unfolding click
      by (simp add: settled_def commit_def run_effects_def render_def effect_theme_def
          effect_scrollBehavior_def effect_overflow_def Let_def)
  qed
qed

lemma contact_link: "lit ''#contact'' \<in> set (map snd mobile_menu_links)"
  by (simp add: mobile_menu_links_def)

text \<open>
  Claim C8. On a page at rest with the menu closed: toggling the menu, with the render
  and effects that follow, sets \<open>overflow: hidden\<close> on the body and changes nothing
  but the menu state; toggling again gives back the page as it was, overflow included;
  and a click on any link of the open menu leaves the page that \<open>goTo\<close> of that
  link gives with the menu closed, the overflow as before the menu was opened.
\<close>

theorem menu_toggle:
  assumes "settled s" "\<not> menuOpen s"
  shows "commit (toggleMenu s) =
           s\<lparr>menuOpen := True, shown_menuOpen := True, dep_menuOpen := Some True,
             body_overflow := lit ''hidden''\<rparr> \<and>
         commit (toggleMenu (commit (toggleMenu s))) = s \<and>
         (\<forall>href \<in> set (map snd mobile_menu_links).
            commit (mobile_menu_click href (commit (toggleMenu s))) = goTo href s \<and>
            \<not> menuOpen (goTo href s) \<and> body_overflow (goTo href s) = body_overflow s)"
proof (intro conjI ballI)
  show "commit (toggleMenu s) =
           s\<lparr>menuOpen := True, shown_menuOpen := True, dep_menuOpen := Some True,
             body_overflow := lit ''hidden''\<rparr>"
    using assms by (rule commit_toggle_open)
  show "commit (toggleMenu (commit (toggleMenu s))) = s"
    using assms by (rule commit_toggle_close)
next
  fix href assume "href \<in> set (map snd mobile_menu_links)"
  with mobile_menu_hrefs have "startsWith_hash href"
    by (rule bspec)
  with assms show "commit (mobile_menu_click href (commit (toggleMenu s))) = goTo href s"
    by (rule menu_click_closes)
next
  fix href
  show "\<not> menuOpen (goTo href s)"
    using assms(2) by simp
next
  fix href
  show "body_overflow (goTo href s) = body_overflow s"
    by simp
qed

text \<open>
  On the mounted page, with the link to \<open>#contact\<close>.
\<close>

theorem menu_toggle_witness:
  "settled fresh_page \<and> \<not> menuOpen fresh_page \<and> body_overflow fresh_page = [] \<and>
   menuOpen (commit (toggleMenu fresh_page)) \<and>
   body_overflow (commit (toggleMenu fresh_page)) = lit ''hidden'' \<and>
   body_overflow (commit (toggleMenu (commit (toggleMenu fresh_page)))) = [] \<and>
   lit ''#contact'' \<in> set (map snd mobile_menu_links) \<and>
   \<not> menuOpen (commit (mobile_menu_click (lit ''#contact'') (commit (toggleMenu fresh_page)))) \<and>
   body_overflow (commit (mobile_menu_click (lit ''#contact'') (commit (toggleMenu fresh_page)))) = []"
proof -
  have settled: "settled fresh_page"
    unfolding fresh_page_def by (rule mount_settled)
  note toggled = menu_toggle [OF settled fresh_closed(1)]
  from toggled have "commit (toggleMenu fresh_page) =
           fresh_page\<lparr>menuOpen := True, shown_menuOpen := True, dep_menuOpen := Some True,
             body_overflow := lit ''hidden''\<rparr>"
    by (rule conjunct1)
  then have opened: "menuOpen (commit (toggleMenu fresh_page))"
    "body_overflow (commit (toggleMenu fresh_page)) = lit ''hidden''"
    by simp_all
  from toggled have closed: "commit (toggleMenu (commit (toggleMenu fresh_page))) = fresh_page"
    by (rule conjunct2 [THEN conjunct1])
  from toggled have "\<forall>href \<in> set (map snd mobile_menu_links).
            commit (mobile_menu_click href (commit (toggleMenu fresh_page))) = goTo href fresh_page \<and>
            \<not> menuOpen (goTo href fresh_page) \<and>
            body_overflow (goTo href fresh_page) = body_overflow fresh_page"
    by (rule conjunct2 [THEN conjunct2])
  from bspec [OF this contact_link]
  have clicked: "\<not> menuOpen (commit (mobile_menu_click (lit ''#contact'') (commit (toggleMenu fresh_page))))"
    "body_overflow (commit (mobile_menu_click (lit ''#contact'') (commit (toggleMenu fresh_page)))) = []"
    by (simp_all add: fresh_closed)
  from settled fresh_closed opened closed clicked contact_link show ?thesis
    by simp
qed

section \<open>Service cards\<close>

lemma card_targets:
  "map card_target service_cards =
     [lit ''weddings'', lit ''weddings'', lit ''weddings'', lit ''naming'', lit ''vow-renewals'',
      lit ''celebration-of-life'']"
  by (simp add: card_target_def service_cards_def serviceToId_def lit_def)

lemma divider_keys:
  "map (replace_first (lit '' Ceremonies'') []) divider_labels =
     [lit ''Legal Weddings'', lit ''Commitment Weddings'', lit ''Elopement Weddings'',
      lit ''Naming'', lit ''Vow Renewals'', lit ''Celebration of Life'']"
  by (simp add: divider_labels_def lit_def)

lemma divider_targets:
  "map divider_target divider_labels =
     [lit ''weddings'', lit ''weddings'', lit ''weddings'', lit ''services'', lit ''vow-renewals'',
      lit ''celebration-of-life'']"
proof -
  have "map divider_target divider_labels =
      map card_target (map (replace_first (lit '' Ceremonies'') []) divider_labels)"
    by (simp add: divider_target_def)
  also have "\<dots> = [lit ''weddings'', lit ''weddings'', lit ''weddings'', lit ''services'',
      lit ''vow-renewals'', lit ''celebration-of-life'']"
    unfolding divider_keys by (simp add: card_target_def serviceToId_def lit_def)
  finally show ?thesis .
qed

text \<open>
  Claim C9. Every card and every entry of the divider list resolves to the id of a
  section of the page, and the ids of the sections are the thirteen anchors. (The entry
  \<open>Naming Ceremonies\<close> of the divider list becomes the key \<open>Naming\<close>, which the
  mapping does not have, and resolves to \<open>services\<close> through the fallback.)
\<close>

theorem service_targets_are_sections:
  "(\<forall>title \<in> set service_cards. card_target title \<in> set section_ids) \<and>
   (\<forall>label \<in> set divider_labels. divider_target label \<in> set section_ids) \<and>
   set section_ids =
     {lit ''home'', lit ''about'', lit ''services'', lit ''gallery'', lit ''how-it-works'',
      lit ''weddings'', lit ''vow-renewals'', lit ''naming'', lit ''celebration-of-life'',
      lit ''your-funeral'', lit ''faq'', lit ''privacy'', lit ''contact''}"
proof -
  have "set (map card_target service_cards) \<subseteq> set section_ids"
    unfolding card_targets by (simp add: section_ids_def)
  moreover have "set (map divider_target divider_labels) \<subseteq> set section_ids"
    unfolding divider_targets by (simp add: section_ids_def)
  moreover have "set section_ids =
     {lit ''home'', lit ''about'', lit ''services'', lit ''gallery'', lit ''how-it-works'',
      lit ''weddings'', lit ''vow-renewals'', lit ''naming'', lit ''celebration-of-life'',
      lit ''your-funeral'', lit ''faq'', lit ''privacy'', lit ''contact''}"
    by (simp add: section_ids_def)
  ultimately show ?thesis
    by auto
qed

text \<open>
  A card, the divider entry that takes the fallback, and the one whose suffix is
  removed.
\<close>

theorem service_targets_are_sections_witness:
  "lit ''Legal Weddings'' \<in> set service_cards \<and>
   card_target (lit ''Legal Weddings'') = lit ''weddings'' \<and>
   lit ''weddings'' \<in> set section_ids \<and>
   lit ''Naming Ceremonies'' \<in> set divider_labels \<and>
   divider_target (lit ''Naming Ceremonies'') = lit ''services'' \<and>
   lit ''services'' \<in> set section_ids \<and>
   lit ''Celebration of Life Ceremonies'' \<in> set divider_labels \<and>
   divider_target (lit ''Celebration of Life Ceremonies'') = lit ''celebration-of-life'' \<and>
   lit ''celebration-of-life'' \<in> set section_ids"
proof -
  have members: "lit ''Legal Weddings'' \<in> set service_cards"
    "lit ''Naming Ceremonies'' \<in> set divider_labels"
    "lit ''Celebration of Life Ceremonies'' \<in> set divider_labels"
    by (simp_all add: service_cards_def divider_labels_def)
  have targets: "card_target (lit ''Legal Weddings'') = lit ''weddings''"
    "divider_target (lit ''Naming Ceremonies'') = lit ''services''"
    "divider_target (lit ''Celebration of Life Ceremonies'') = lit ''celebration-of-life''"
    by (simp_all add: divider_target_def card_target_def serviceToId_def lit_def)
  from service_targets_are_sections have
    cards: "\<forall>title \<in> set service_cards. card_target title \<in> set section_ids"
    and dividers: "\<forall>label \<in> set divider_labels. divider_target label \<in> set section_ids"
    by (rule conjunct1, rule conjunct2 [THEN conjunct1])
  from bspec [OF cards members(1)] bspec [OF dividers members(2)] bspec [OF dividers members(3)]
    members targets show ?thesis
    by simp
qed

section \<open>Encoding and form data\<close>

lemma unescaped_not_surrogate: "uriUnescaped c \<Longrightarrow> \<not> is_lead c \<and> \<not> is_trail c"
  by (auto simp: uriUnescaped_def is_lead_def is_trail_def word_le_nat_alt)

lemma lead_not_trail: "is_lead c \<Longrightarrow> \<not> is_trail c"
  by (auto simp: is_lead_def is_trail_def word_le_nat_alt)

lemma replacement_character:
  "\<not> uriUnescaped 0xFFFD" "\<not> is_lead 0xFFFD" "\<not> is_trail 0xFFFD"
  by (simp_all add: uriUnescaped_def is_lead_def is_trail_def)

lemma encode_scalar_value_string:
  "\<exists>r. encodeURIComponent (scalar_value_string s) = Inr r"
proof (induction s rule: scalar_value_string.induct)
  case 1
  show ?case by simp
next
  case (2 c)
  show ?case
    by (auto simp: replacement_character dest: unescaped_not_surrogate)
next
  case (3 c d ds)
  show ?case
  proof (cases "is_lead c \<and> is_trail d")
    case True
    with 3 show ?thesis
      by (auto simp: lead_not_trail dest: unescaped_not_surrogate)
  next
    case False
    note nopair = this
    show ?thesis
    proof (cases "is_lead c \<or> is_trail c")
      case True
      with nopair 3 show ?thesis
        by (auto simp: replacement_character)
    next
      case False
      with nopair 3 show ?thesis
        by auto
    qed
  qed
qed

lemma scalar_value_string_Nil [simp]: "scalar_value_string s = [] \<longleftrightarrow> s = []"
  by (induction s rule: scalar_value_string.induct) auto

lemma FormData_new_values:
  "FormData_get (FormData_new es) n = Some v \<Longrightarrow> \<exists>w. v = scalar_value_string w"
  by (induction es) (auto simp: FormData_get_def FormData_new_def split: if_splits)

lemma String_or_empty_simps [simp]:
  "String_or_empty None = []" "String_or_empty (Some v) = v"
  by (simp_all add: String_or_empty_def)

lemma encode_field:
  "\<exists>r. encodeURIComponent (String_or_empty (FormData_get (FormData_new es) n)) = Inr r"
proof (cases "FormData_get (FormData_new es) n")
  case None
  then show ?thesis by (simp add: String_or_empty_def)
next
  case (Some v)
  then obtain w where "v = scalar_value_string w"
    using FormData_new_values by blast
  with Some show ?thesis
    by (simp add: String_or_empty_def encode_scalar_value_string)
qed

lemmas encode_simps =
  lit_def uriUnescaped_def is_lead_def is_trail_def escape_cp_def utf8_def percent_octet_def
  hex_digit_def UTF16SurrogatePairToCodePoint_def

lemma length_lit [simp]: "length (lit a) = length a"
  by (simp add: lit_def)

lemma get_company:
  "FormData_get (FormData_new (form_entries c)) (lit ''company'') =
     Some (scalar_value_string (field_company c))"
  by (simp add: FormData_get_def FormData_new_def form_entries_def lit_def is_lead_def is_trail_def)

lemma get_name:
  "FormData_get (FormData_new (form_entries c)) (lit ''name'') =
     Some (scalar_value_string (field_name c))"
  by (simp add: FormData_get_def FormData_new_def form_entries_def lit_def is_lead_def is_trail_def)

lemma get_contact:
  "FormData_get (FormData_new (form_entries c)) (lit ''contact'') =
     Some (scalar_value_string (field_contact c))"
  by (simp add: FormData_get_def FormData_new_def form_entries_def lit_def is_lead_def is_trail_def)

lemma get_type:
  "String_or_empty (FormData_get (FormData_new (form_entries c)) (lit ''type'')) =
     scalar_value_string (field_type c)"
  by (simp add: FormData_get_def FormData_new_def form_entries_def lit_def is_lead_def is_trail_def
      String_or_empty_def)

lemma get_date:
  "FormData_get (FormData_new (form_entries c)) (lit ''date'') =
     Some (scalar_value_string (field_date c))"
  by (simp add: FormData_get_def FormData_new_def form_entries_def lit_def is_lead_def is_trail_def)

lemma get_message:
  "FormData_get (FormData_new (form_entries c)) (lit ''message'') =
     Some (scalar_value_string (field_message c))"
  by (simp add: FormData_get_def FormData_new_def form_entries_def lit_def is_lead_def is_trail_def)

lemma compose_mailto_Inr:
  assumes "encodeURIComponent (String_or_empty (FormData_get data (lit ''name''))) = Inr n"
    and "encodeURIComponent (String_or_empty (FormData_get data (lit ''contact''))) = Inr c"
    and "encodeURIComponent (String_or_empty (FormData_get data (lit ''type''))) = Inr t"
    and "encodeURIComponent (String_or_empty (FormData_get data (lit ''date''))) = Inr d"
    and "encodeURIComponent (String_or_empty (FormData_get data (lit ''message''))) = Inr m"
  shows "compose_mailto data =
     Inr (lit ''mailto:westcoastcelebrants@gmail.com?subject=Enquiry from '' @ n @
          lit ''&body=Contact: '' @ c @ lit ''%0AType: '' @ t @
          lit ''%0ADate: '' @ d @ lit ''%0A%0A'' @ m)"
  using assms by (simp add: compose_mailto_def bind_exn_def)

lemma onSubmit_data_sent:
  assumes "\<not> truthy (FormData_get data (lit ''company''))"
    and "compose_mailto data = Inr url"
  shows "onSubmit_data nav data s =
     (case nav url of
        None \<Rightarrow> s\<lparr>href_assignments := href_assignments s @ [url], form := blank_controls,
                   status := ok\<rparr>
      | Some e \<Rightarrow> s\<lparr>href_assignments := href_assignments s @ [url], status := error\<rparr>)"
  using assms
  by (simp add: onSubmit_data_def try_block_def assign_href_def setStatus_def form_reset_def
      Let_def split: option.splits)

lemma onSubmit_data_thrown:
  assumes "\<not> truthy (FormData_get data (lit ''company''))"
    and "compose_mailto data = Inl e"
  shows "onSubmit_data nav data s = s\<lparr>status := error\<rparr>"
  using assms
  by (simp add: onSubmit_data_def try_block_def setStatus_def Let_def)

subsection \<open>The example submissions, evaluated\<close>

lemma jane_form: "form jane_page = jane_controls"
  by (simp add: jane_page_def)

lemma jane_href: "href_assignments jane_page = []"
  by (simp add: jane_page_def mount_def commit_def run_effects_def render_def effect_mql_def
      onChange_def effect_theme_def effect_scrollBehavior_def effect_overflow_def Let_def)

lemma jane_status: "status jane_page = idle" "shown_status jane_page = idle"
  by (simp_all add: jane_page_def mount_def commit_def run_effects_def render_def effect_mql_def
      onChange_def effect_theme_def effect_scrollBehavior_def effect_overflow_def Let_def)

lemma encode_Jane: "encodeURIComponent (scalar_value_string (lit ''Jane'')) = Inr (lit ''Jane'')"
  by (simp add: encode_simps)

lemma encode_jane_contact:
  "encodeURIComponent (scalar_value_string (lit ''jane@example.com'')) =
     Inr (lit ''jane%40example.com'')"
  by (simp add: encode_simps)

lemma encode_Legal_Wedding:
  "encodeURIComponent (scalar_value_string (lit ''Legal Wedding'')) =
     Inr (lit ''Legal%20Wedding'')"
  by (simp add: encode_simps)

lemma encode_Hello: "encodeURIComponent (scalar_value_string (lit ''Hello'')) = Inr (lit ''Hello'')"
  by (simp add: encode_simps)

lemma jane_data:
  "FormData_new (form_entries jane_controls) =
      [(lit ''company'', []), (lit ''name'', lit ''Jane''),
       (lit ''contact'', lit ''jane@example.com''), (lit ''type'', lit ''Legal Wedding''),
       (lit ''date'', []), (lit ''message'', lit ''Hello'')]"
  by (simp add: FormData_new_def form_entries_def jane_controls_def lit_def is_lead_def
      is_trail_def)

lemma jane_honeypot:
  "\<not> truthy (FormData_get (FormData_new (form_entries jane_controls)) (lit ''company''))"
  unfolding jane_data by (simp add: FormData_get_def truthy_def)

lemma jane_composed:
  "compose_mailto (FormData_new (form_entries jane_controls)) =
      Inr (lit ''mailto:westcoastcelebrants@gmail.com?subject=Enquiry from Jane&body=Contact: jane%40example.com%0AType: Legal%20Wedding%0ADate: %0A%0AHello'')"
  unfolding jane_data
  by (simp add: compose_mailto_def bind_exn_def FormData_get_def String_or_empty_def encode_simps)

lemma lone_surrogate_throws: "compose_mailto [(lit ''name'', [0xD800])] = Inl URIError"
  by (simp add: compose_mailto_def bind_exn_def FormData_get_def String_or_empty_def encode_simps)

lemma lone_surrogate_honeypot:
  "\<not> truthy (FormData_get [(lit ''name'', [0xD800])] (lit ''company''))"
  by (simp add: FormData_get_def truthy_def lit_def)

lemma untyped_get:
  "FormData_get (FormData_new (form_entries untyped_controls)) (lit ''name'') = Some (lit ''Jane'')"
  "FormData_get (FormData_new (form_entries untyped_controls)) (lit ''contact'') =
     Some (lit ''jane@example.com'')"
  "FormData_get (FormData_new (form_entries untyped_controls)) (lit ''type'') = None"
  "FormData_get (FormData_new (form_entries untyped_controls)) (lit ''date'') = Some []"
  "FormData_get (FormData_new (form_entries untyped_controls)) (lit ''message'') =
     Some (lit ''Hello'')"
  "FormData_get (FormData_new (form_entries untyped_controls)) (lit ''company'') = Some []"
  by (simp_all add: FormData_get_def FormData_new_def form_entries_def untyped_controls_def
      jane_controls_def lit_def is_lead_def is_trail_def)

section \<open>The contact form\<close>

text \<open>
  Claim C1, as the code has it. For every submission with an empty honeypot field the
  handler assigns exactly one link to \<open>window.location.href\<close>, of the shape
  \<open>mailto:westcoastcelebrants@gmail.com?subject=Enquiry from <name>&body=Contact: <contact>%0AType: <type>%0ADate: <date>%0A%0A<message>\<close>,
  where the five values are the results of \<open>encodeURIComponent\<close> on the fields of the
  form, none of which throws, and the lines are separated by the text \<open>%0A\<close>; when the
  user agent accepts the link, the status becomes \<open>ok\<close>.
\<close>

theorem mailto_link_shape:
  assumes "field_company (form s) = []"
  shows "\<exists>name contact type date message link.
     encodeURIComponent (scalar_value_string (field_name (form s))) = Inr name \<and>
     encodeURIComponent (scalar_value_string (field_contact (form s))) = Inr contact \<and>
     encodeURIComponent (scalar_value_string (field_type (form s))) = Inr type \<and>
     encodeURIComponent (scalar_value_string (field_date (form s))) = Inr date \<and>
     encodeURIComponent (scalar_value_string (field_message (form s))) = Inr message \<and>
     link = lit ''mailto:westcoastcelebrants@gmail.com?subject=Enquiry from '' @ name @
            lit ''&body=Contact: '' @ contact @ lit ''%0AType: '' @ type @
            lit ''%0ADate: '' @ date @ lit ''%0A%0A'' @ message \<and>
     href_assignments (onSubmit nav s) = href_assignments s @ [link] \<and>
     (nav link = None \<longrightarrow> status (onSubmit nav s) = ok)"
proof -
  let ?data = "FormData_new (form_entries (form s))"
  obtain n where n: "encodeURIComponent (scalar_value_string (field_name (form s))) = Inr n"
    using encode_scalar_value_string by blast
  obtain c where c: "encodeURIComponent (scalar_value_string (field_contact (form s))) = Inr c"
    using encode_scalar_value_string by blast
  obtain t where t: "encodeURIComponent (scalar_value_string (field_type (form s))) = Inr t"
    using encode_scalar_value_string by blast
  obtain d where d: "encodeURIComponent (scalar_value_string (field_date (form s))) = Inr d"
    using encode_scalar_value_string by blast
  obtain m where m: "encodeURIComponent (scalar_value_string (field_message (form s))) = Inr m"
    using encode_scalar_value_string by blast
  let ?link = "lit ''mailto:westcoastcelebrants@gmail.com?subject=Enquiry from '' @ n @
            lit ''&body=Contact: '' @ c @ lit ''%0AType: '' @ t @
            lit ''%0ADate: '' @ d @ lit ''%0A%0A'' @ m"
  have composed: "compose_mailto ?data = Inr ?link"
    by (rule compose_mailto_Inr)
      (simp_all add: get_name get_contact get_type get_date get_message n c t d m)
  have honeypot: "\<not> truthy (FormData_get ?data (lit ''company''))"
    using assms by (simp add: get_company truthy_def)
  have sent: "onSubmit nav s =
     (case nav ?link of
        None \<Rightarrow> s\<lparr>href_assignments := href_assignments s @ [?link], form := blank_controls,
                   status := ok\<rparr>
      | Some e \<Rightarrow> s\<lparr>href_assignments := href_assignments s @ [?link], status := error\<rparr>)"
    unfolding onSubmit_def by (rule onSubmit_data_sent [OF honeypot composed])
  have assigned: "href_assignments (onSubmit nav s) = href_assignments s @ [?link]"
    by (simp add: sent split: option.splits)
  have finished: "nav ?link = None \<longrightarrow> status (onSubmit nav s) = ok"
    by (simp add: sent)
  show ?thesis
    apply (rule exI [of _ n], rule exI [of _ c], rule exI [of _ t], rule exI [of _ d])
    apply (rule exI [of _ m], rule exI [of _ ?link])
    using n c t d m assigned finished by simp
qed

text \<open>
  The example of the specification: name Jane, contact jane@example.com, type Legal
  Wedding, message Hello. The subject ends in \<open>Jane\<close>, the body holds
  \<open>Legal%20Wedding\<close> and \<open>Hello\<close>, and the status is \<open>ok\<close>.
\<close>

theorem mailto_link_shape_witness:
  "field_company (form jane_page) = [] \<and>
   href_assignments (onSubmit no_throw jane_page) =
     [lit ''mailto:westcoastcelebrants@gmail.com?subject=Enquiry from Jane&body=Contact: jane%40example.com%0AType: Legal%20Wedding%0ADate: %0A%0AHello''] \<and>
   status (onSubmit no_throw jane_page) = ok"
proof -
  have empty: "field_company (form jane_page) = []"
    by (simp add: jane_form jane_controls_def)
  from mailto_link_shape [OF empty, of no_throw]
  obtain name contact type date message link where
    "encodeURIComponent (scalar_value_string (field_name (form jane_page))) = Inr name"
    "encodeURIComponent (scalar_value_string (field_contact (form jane_page))) = Inr contact"
    "encodeURIComponent (scalar_value_string (field_type (form jane_page))) = Inr type"
    "encodeURIComponent (scalar_value_string (field_date (form jane_page))) = Inr date"
    "encodeURIComponent (scalar_value_string (field_message (form jane_page))) = Inr message"
    and link: "link = lit ''mailto:westcoastcelebrants@gmail.com?subject=Enquiry from '' @ name @
            lit ''&body=Contact: '' @ contact @ lit ''%0AType: '' @ type @
            lit ''%0ADate: '' @ date @ lit ''%0A%0A'' @ message"
    and sent: "href_assignments (onSubmit no_throw jane_page) = href_assignments jane_page @ [link]"
      "no_throw link = None \<longrightarrow> status (onSubmit no_throw jane_page) = ok"
    by (elim exE conjE) (rule that, assumption+)
  then have "name = lit ''Jane''" "contact = lit ''jane%40example.com''"
    "type = lit ''Legal%20Wedding''" "date = []" "message = lit ''Hello''"
    by (simp_all add: jane_form jane_controls_def encode_Jane encode_jane_contact
        encode_Legal_Wedding encode_Hello)
  with link have "link = lit ''mailto:westcoastcelebrants@gmail.com?subject=Enquiry from Jane&body=Contact: jane%40example.com%0AType: Legal%20Wedding%0ADate: %0A%0AHello''"
    by (simp add: lit_append [symmetric])
  with sent empty show ?thesis
    by (simp add: jane_href no_throw_def)
qed

text \<open>
  The link is not the one with line feeds between the lines of the body: for the same
  example, with the five values encoded as stated, the link assigned differs from
  \<open>spec_mailto\<close>.
\<close>

theorem mailto_line_breaks_counterexample:
  "encodeURIComponent (lit ''Jane'') = Inr (lit ''Jane'') \<and>
   encodeURIComponent (lit ''jane@example.com'') = Inr (lit ''jane%40example.com'') \<and>
   encodeURIComponent (lit ''Legal Wedding'') = Inr (lit ''Legal%20Wedding'') \<and>
   encodeURIComponent [] = Inr [] \<and>
   encodeURIComponent (lit ''Hello'') = Inr (lit ''Hello'') \<and>
   field_company (form jane_page) = [] \<and>
   href_assignments (onSubmit no_throw jane_page) \<noteq>
     [spec_mailto (lit ''Jane'') (lit ''jane%40example.com'') (lit ''Legal%20Wedding'') []
        (lit ''Hello'')]"
proof -
  have "href_assignments (onSubmit no_throw jane_page) =
      [lit ''mailto:westcoastcelebrants@gmail.com?subject=Enquiry from Jane&body=Contact: jane%40example.com%0AType: Legal%20Wedding%0ADate: %0A%0AHello'']"
    unfolding onSubmit_def jane_form
    by (simp add: onSubmit_data_sent [OF jane_honeypot jane_composed] no_throw_def jane_href)
  moreover have "lit ''mailto:westcoastcelebrants@gmail.com?subject=Enquiry from Jane&body=Contact: jane%40example.com%0AType: Legal%20Wedding%0ADate: %0A%0AHello'' \<noteq>
     spec_mailto (lit ''Jane'') (lit ''jane%40example.com'') (lit ''Legal%20Wedding'') []
        (lit ''Hello'')"
  proof
    assume "lit ''mailto:westcoastcelebrants@gmail.com?subject=Enquiry from Jane&body=Contact: jane%40example.com%0AType: Legal%20Wedding%0ADate: %0A%0AHello'' =
     spec_mailto (lit ''Jane'') (lit ''jane%40example.com'') (lit ''Legal%20Wedding'') []
        (lit ''Hello'')"
    then have "length (lit ''mailto:westcoastcelebrants@gmail.com?subject=Enquiry from Jane&body=Contact: jane%40example.com%0AType: Legal%20Wedding%0ADate: %0A%0AHello'') =
     length (spec_mailto (lit ''Jane'') (lit ''jane%40example.com'') (lit ''Legal%20Wedding'') []
        (lit ''Hello''))"
      by simp
    then show False
      by (simp add: spec_mailto_def)
  qed
  moreover have "encodeURIComponent (lit ''Jane'') = Inr (lit ''Jane'')"
    "encodeURIComponent (lit ''jane@example.com'') = Inr (lit ''jane%40example.com'')"
    "encodeURIComponent (lit ''Legal Wedding'') = Inr (lit ''Legal%20Wedding'')"
    "encodeURIComponent (lit ''Hello'') = Inr (lit ''Hello'')"
    by (simp_all add: encode_simps)
  ultimately show ?thesis
    by (simp add: jane_form jane_controls_def)
qed

text \<open>
  Claim C2. A submission with a non-empty honeypot field leaves the whole page as it
  was: the status, queued and shown, is unchanged and no link is assigned.
\<close>

theorem honeypot_aborts:
  assumes "field_company (form s) \<noteq> []"
  shows "onSubmit nav s = s"
  using assms by (simp add: onSubmit_def onSubmit_data_def get_company truthy_def)

text \<open>
  A submission with the hidden field set to \<open>Acme Ltd\<close>.
\<close>

theorem honeypot_aborts_witness:
  "field_company (form bot_page) \<noteq> [] \<and> onSubmit no_throw bot_page = bot_page \<and>
   status (onSubmit no_throw bot_page) = idle \<and>
   shown_status (submit_event no_throw bot_page) = idle \<and>
   href_assignments (onSubmit no_throw bot_page) = []"
proof -
  have filled: "field_company (form bot_page) \<noteq> []"
    by (simp add: bot_page_def lit_def)
  have "status bot_page = idle" "href_assignments bot_page = []"
    by (simp_all add: bot_page_def jane_page_def mount_def commit_def run_effects_def render_def
        effect_mql_def onChange_def effect_theme_def effect_scrollBehavior_def effect_overflow_def
        Let_def)
  with filled honeypot_aborts [OF filled, of no_throw] show ?thesis
    by (simp add: submit_event_def render_form_def)
qed

text \<open>
  What a submission with an empty honeypot field leaves, for the data of any form and
  any user agent. The status is \<open>ok\<close> exactly when the link was composed and the user
  agent accepted it, and then the form is reset to its empty controls. In every other
  case, whichever exception was thrown and wherever, the status is \<open>error\<close>, for which
  the one message \<open>Sorry, something went wrong. Please email us directly.\<close> is shown,
  and the fields keep their values. At most one link is assigned: nothing is retried.
  The handler renders nothing itself.
\<close>

lemma submission_outcome:
  assumes "\<not> truthy (FormData_get data (lit ''company''))"
  shows "shown_status (onSubmit_data nav data s) = shown_status s \<and>
         (status (onSubmit_data nav data s) = ok \<or> status (onSubmit_data nav data s) = error) \<and>
         (status (onSubmit_data nav data s) = ok \<longleftrightarrow>
            (\<exists>url. compose_mailto data = Inr url \<and> nav url = None)) \<and>
         (status (onSubmit_data nav data s) = ok \<longrightarrow>
            form (onSubmit_data nav data s) = blank_controls) \<and>
         (status (onSubmit_data nav data s) = error \<longrightarrow>
            status_message (status (onSubmit_data nav data s)) =
              Some (lit ''Sorry, something went wrong. Please email us directly.'') \<and>
            form (onSubmit_data nav data s) = form s) \<and>
         length (href_assignments (onSubmit_data nav data s)) \<le>
           Suc (length (href_assignments s))"
proof (cases "compose_mailto data")
  case (Inl e)
  show ?thesis
    by (simp add: onSubmit_data_thrown [OF assms Inl] Inl status_message_def)
next
  case (Inr url)
  show ?thesis
    by (cases "nav url")
      (simp_all add: onSubmit_data_sent [OF assms Inr] Inr status_message_def)
qed

text \<open>
  No submit event ends in a render with the status \<open>sending\<close>: the handler leaves
  what is shown as it is, and the render after it shows the status the page had (honeypot
  filled), \<open>ok\<close> or \<open>error\<close>. The status is \<open>idle\<close> after mounting, so it is
  \<open>sending\<close> before or after no submit event.
\<close>

lemma onSubmit_shows_nothing: "shown_status (onSubmit nav s) = shown_status s"
proof (cases "truthy (FormData_get (FormData_new (form_entries (form s))) (lit ''company''))")
  case True
  then show ?thesis
    by (simp add: onSubmit_def onSubmit_data_def)
next
  case False
  from submission_outcome [OF False, of nav s] show ?thesis
    unfolding onSubmit_def by (rule conjunct1)
qed

lemma submit_event_never_sending:
  assumes "status s \<noteq> sending"
  shows "shown_status (submit_event nav s) \<noteq> sending \<and>
         status (submit_event nav s) \<noteq> sending"
proof (cases "truthy (FormData_get (FormData_new (form_entries (form s))) (lit ''company''))")
  case True
  with assms show ?thesis
    by (simp add: submit_event_def render_form_def onSubmit_def onSubmit_data_def)
next
  case False
  from submission_outcome [OF False, of nav s]
  have "status (onSubmit nav s) = ok \<or> status (onSubmit nav s) = error"
    unfolding onSubmit_def by (rule conjunct2 [THEN conjunct1])
  then show ?thesis
    by (auto simp: submit_event_def render_form_def)
qed

text \<open>
  Claim C3, evaluated. The example submission on the mounted page, where the form shows
  the status \<open>idle\<close> and an enabled button labelled \<open>Send enquiry\<close>. The handler
  calls \<open>setStatus("sending")\<close> and, before it returns, \<open>setStatus("ok")\<close> or
  \<open>setStatus("error")\<close>. While it runs the form still shows \<open>idle\<close>; the render that
  follows shows \<open>ok\<close> with the fields cleared when the user agent accepts the link,
  and \<open>error\<close> with the one message, the fields kept, when it throws. No render has
  the status \<open>sending\<close>, for which alone the button is disabled and reads
  \<open>Sending\<dots>\<close>.
\<close>

theorem submission_never_shows_sending:
  "field_company (form jane_page) = [] \<and>
   shown_status jane_page = idle \<and>
   \<not> submit_disabled (shown_status jane_page) \<and>
   submit_label (shown_status jane_page) = lit ''Send enquiry'' \<and>
   shown_status (setStatus sending jane_page) = idle \<and>
   shown_status (onSubmit no_throw jane_page) = idle \<and>
   shown_status (submit_event no_throw jane_page) = ok \<and>
   \<not> submit_disabled (shown_status (submit_event no_throw jane_page)) \<and>
   submit_label (shown_status (submit_event no_throw jane_page)) = lit ''Send enquiry'' \<and>
   form (submit_event no_throw jane_page) = blank_controls \<and>
   shown_status (onSubmit always_throws jane_page) = idle \<and>
   shown_status (submit_event always_throws jane_page) = error \<and>
   \<not> submit_disabled (shown_status (submit_event always_throws jane_page)) \<and>
   form (submit_event always_throws jane_page) = jane_controls \<and>
   status_message (shown_status (submit_event always_throws jane_page)) =
     Some (lit ''Sorry, something went wrong. Please email us directly.'') \<and>
   length (href_assignments (submit_event always_throws jane_page)) = 1"
proof -
  let ?data = "FormData_new (form_entries jane_controls)"
  have sent: "onSubmit no_throw jane_page =
      jane_page\<lparr>href_assignments := href_assignments jane_page @
          [lit ''mailto:westcoastcelebrants@gmail.com?subject=Enquiry from Jane&body=Contact: jane%40example.com%0AType: Legal%20Wedding%0ADate: %0A%0AHello''],
        form := blank_controls, status := ok\<rparr>"
    unfolding onSubmit_def jane_form
    by (simp add: onSubmit_data_sent [OF jane_honeypot jane_composed] no_throw_def)
  have failed: "onSubmit always_throws jane_page =
      jane_page\<lparr>href_assignments := href_assignments jane_page @
          [lit ''mailto:westcoastcelebrants@gmail.com?subject=Enquiry from Jane&body=Contact: jane%40example.com%0AType: Legal%20Wedding%0ADate: %0A%0AHello''],
        status := error\<rparr>"
    unfolding onSubmit_def jane_form
    by (simp add: onSubmit_data_sent [OF jane_honeypot jane_composed] always_throws_def)
  have "field_company (form jane_page) = []"
    by (simp add: jane_form jane_controls_def)
  moreover have "shown_status (setStatus sending jane_page) = idle"
    by (simp add: setStatus_def jane_status)
  moreover have "submit_label idle = lit ''Send enquiry''" "submit_label ok = lit ''Send enquiry''"
    by (simp_all add: submit_label_def)
  ultimately show ?thesis
    unfolding submit_event_def sent failed
    by (simp add: render_form_def jane_status jane_form jane_href submit_disabled_def
        status_message_def)
qed

text \<open>
  Claim C10. For the data of any form, whatever fields it has, each of the five
  encodings returns, the encoding of an absent field is the empty string, and the link
  is composed with all five labelled parts; with an empty honeypot field that link is
  the one assigned.
\<close>

theorem absent_fields_are_empty:
  "\<exists>name contact type date message link.
     encodeURIComponent (String_or_empty (FormData_get (FormData_new es) (lit ''name''))) = Inr name \<and>
     encodeURIComponent (String_or_empty (FormData_get (FormData_new es) (lit ''contact''))) = Inr contact \<and>
     encodeURIComponent (String_or_empty (FormData_get (FormData_new es) (lit ''type''))) = Inr type \<and>
     encodeURIComponent (String_or_empty (FormData_get (FormData_new es) (lit ''date''))) = Inr date \<and>
     encodeURIComponent (String_or_empty (FormData_get (FormData_new es) (lit ''message''))) = Inr message \<and>
     (FormData_get (FormData_new es) (lit ''name'') = None \<longrightarrow> name = []) \<and>
     (FormData_get (FormData_new es) (lit ''contact'') = None \<longrightarrow> contact = []) \<and>
     (FormData_get (FormData_new es) (lit ''type'') = None \<longrightarrow> type = []) \<and>
     (FormData_get (FormData_new es) (lit ''date'') = None \<longrightarrow> date = []) \<and>
     (FormData_get (FormData_new es) (lit ''message'') = None \<longrightarrow> message = []) \<and>
     link = lit ''mailto:westcoastcelebrants@gmail.com?subject=Enquiry from '' @ name @
            lit ''&body=Contact: '' @ contact @ lit ''%0AType: '' @ type @
            lit ''%0ADate: '' @ date @ lit ''%0A%0A'' @ message \<and>
     compose_mailto (FormData_new es) = Inr link \<and>
     (\<not> truthy (FormData_get (FormData_new es) (lit ''company'')) \<longrightarrow>
        href_assignments (onSubmit_data nav (FormData_new es) s) = href_assignments s @ [link])"
proof -
  let ?data = "FormData_new es"
  obtain n where n: "encodeURIComponent (String_or_empty (FormData_get ?data (lit ''name''))) = Inr n"
    using encode_field by blast
  obtain c where c: "encodeURIComponent (String_or_empty (FormData_get ?data (lit ''contact''))) = Inr c"
    using encode_field by blast
  obtain t where t: "encodeURIComponent (String_or_empty (FormData_get ?data (lit ''type''))) = Inr t"
    using encode_field by blast
  obtain d where d: "encodeURIComponent (String_or_empty (FormData_get ?data (lit ''date''))) = Inr d"
    using encode_field by blast
  obtain m where m: "encodeURIComponent (String_or_empty (FormData_get ?data (lit ''message''))) = Inr m"
    using encode_field by blast
  let ?link = "lit ''mailto:westcoastcelebrants@gmail.com?subject=Enquiry from '' @ n @
            lit ''&body=Contact: '' @ c @ lit ''%0AType: '' @ t @
            lit ''%0ADate: '' @ d @ lit ''%0A%0A'' @ m"
  have composed: "compose_mailto ?data = Inr ?link"
    by (rule compose_mailto_Inr [OF n c t d m])
  have absent: "FormData_get ?data (lit ''name'') = None \<longrightarrow> n = []"
    "FormData_get ?data (lit ''contact'') = None \<longrightarrow> c = []"
    "FormData_get ?data (lit ''type'') = None \<longrightarrow> t = []"
    "FormData_get ?data (lit ''date'') = None \<longrightarrow> d = []"
    "FormData_get ?data (lit ''message'') = None \<longrightarrow> m = []"
    using n c t d m by auto
  have assigned: "\<not> truthy (FormData_get ?data (lit ''company'')) \<longrightarrow>
        href_assignments (onSubmit_data nav ?data s) = href_assignments s @ [?link]"
    by (simp add: onSubmit_data_sent [OF _ composed] split: option.splits)
  show ?thesis
    apply (rule exI [of _ n], rule exI [of _ c], rule exI [of _ t], rule exI [of _ d])
    apply (rule exI [of _ m], rule exI [of _ ?link])
    using n c t d m absent composed assigned by simp
qed

text \<open>
  The example submission with no ceremony type chosen: the \<open>select\<close> contributes
  no entry, and the link holds an empty \<open>Type:\<close> line.
\<close>

theorem absent_fields_are_empty_witness:
  "FormData_get (FormData_new (form_entries untyped_controls)) (lit ''type'') = None \<and>
   \<not> truthy (FormData_get (FormData_new (form_entries untyped_controls)) (lit ''company'')) \<and>
   compose_mailto (FormData_new (form_entries untyped_controls)) =
     Inr (lit ''mailto:westcoastcelebrants@gmail.com?subject=Enquiry from Jane&body=Contact: jane%40example.com%0AType: %0ADate: %0A%0AHello'') \<and>
   href_assignments (onSubmit_data no_throw (FormData_new (form_entries untyped_controls)) jane_page) =
     [lit ''mailto:westcoastcelebrants@gmail.com?subject=Enquiry from Jane&body=Contact: jane%40example.com%0AType: %0ADate: %0A%0AHello'']"
proof -
  let ?data = "FormData_new (form_entries untyped_controls)"
  from absent_fields_are_empty [of "form_entries untyped_controls" no_throw jane_page]
  obtain name contact type date message link where
    enc: "encodeURIComponent (String_or_empty (FormData_get ?data (lit ''name''))) = Inr name"
      "encodeURIComponent (String_or_empty (FormData_get ?data (lit ''contact''))) = Inr contact"
      "encodeURIComponent (String_or_empty (FormData_get ?data (lit ''type''))) = Inr type"
      "encodeURIComponent (String_or_empty (FormData_get ?data (lit ''date''))) = Inr date"
      "encodeURIComponent (String_or_empty (FormData_get ?data (lit ''message''))) = Inr message"
    and absent: "FormData_get ?data (lit ''name'') = None \<longrightarrow> name = []"
      "FormData_get ?data (lit ''contact'') = None \<longrightarrow> contact = []"
      "FormData_get ?data (lit ''type'') = None \<longrightarrow> type = []"
      "FormData_get ?data (lit ''date'') = None \<longrightarrow> date = []"
      "FormData_get ?data (lit ''message'') = None \<longrightarrow> message = []"
    and link: "link = lit ''mailto:westcoastcelebrants@gmail.com?subject=Enquiry from '' @ name @
            lit ''&body=Contact: '' @ contact @ lit ''%0AType: '' @ type @
            lit ''%0ADate: '' @ date @ lit ''%0A%0A'' @ message"
    and composed: "compose_mailto ?data = Inr link"
    and assigned: "\<not> truthy (FormData_get ?data (lit ''company'')) \<longrightarrow>
        href_assignments (onSubmit_data no_throw ?data jane_page) = href_assignments jane_page @ [link]"
    by (elim exE conjE) (rule that, assumption+)
  from absent have "type = []"
    by (simp add: untyped_get)
  moreover from enc have "encodeURIComponent (lit ''Jane'') = Inr name"
    "encodeURIComponent (lit ''jane@example.com'') = Inr contact"
    "encodeURIComponent [] = Inr date" "encodeURIComponent (lit ''Hello'') = Inr message"
    by (simp_all add: untyped_get)
  then have "name = lit ''Jane''" "contact = lit ''jane%40example.com''"
    "date = []" "message = lit ''Hello''"
    by (simp_all add: encode_simps)
  ultimately have "link = lit ''mailto:westcoastcelebrants@gmail.com?subject=Enquiry from Jane&body=Contact: jane%40example.com%0AType: %0ADate: %0A%0AHello''"
    using link by (simp add: lit_append [symmetric])
  with composed assigned show ?thesis
    by (simp add: untyped_get truthy_def jane_href)
qed

end
